theory Spec2Isabelle
  imports Main
begin

section \<open>Python values, exceptions and the tabular data of the data layer\<close>

text \<open>
  The data layer (\<^verbatim>\<open>src/data_layer.py\<close>) and the presentation module
  (\<^verbatim>\<open>src/app.py\<close>) handle query results as pandas data frames. This section fixes
  the part of pandas the two source files rely on.

  Exceptions are values. \<open>error\<close> stands for the instances of Python's \<^verbatim>\<open>Exception\<close>
  class that the modelled code can meet: the \<^verbatim>\<open>ValueError\<close> raised on missing settings
  (the spec calls it ConfigurationError) and by the frame constructor on ragged rows,
  the \<^verbatim>\<open>AttributeError\<close> of an attribute that does not exist, the \<^verbatim>\<open>KeyError\<close>
  of a missing label, and \<open>RemoteError\<close> for whatever the wire client or the compute
  engine raises (the number tells such failures apart).
\<close>

datatype error = ValueError | AttributeError | KeyError | RemoteError nat

text \<open>
  A scalar as Python hands it over: \<^verbatim>\<open>None\<close>, the float \<^verbatim>\<open>nan\<close>, a native number
  (a \<^verbatim>\<open>float\<close>, or an \<^verbatim>\<open>int\<close> within 64 bits, of an abstract number type \<open>'n\<close>: integers
  and floats are not told apart), or any other object (\<^verbatim>\<open>str\<close>, \<^verbatim>\<open>Decimal\<close>, \<^verbatim>\<open>date\<close>,
  ...) of an abstract type \<open>'o\<close>. A Python \<^verbatim>\<open>int\<close> beyond 64 bits is such an object:
  pandas keeps it in an \<^verbatim>\<open>object\<close> column and its numeric conversion rounds it to a
  float. Python \<^verbatim>\<open>bool\<close> values, which pandas stores in a dtype of their own, are not
  part of the model.
\<close>

datatype ('o, 'n) pyval = PyNone | PyNaN | PyNum 'n | PyObj 'o

text \<open>
  A column (\<^verbatim>\<open>pd.Series\<close>) is either of a native numeric dtype, holding numbers and
  \<^verbatim>\<open>NaN\<close> (here \<open>None\<close>), or of dtype \<^verbatim>\<open>object\<close>, holding arbitrary Python scalars.
  The numeric dtypes are those that construction from Python numbers gives, \<^verbatim>\<open>int64\<close>
  and \<^verbatim>\<open>float64\<close>, taken as one; narrower numeric dtypes are not modelled.
  A frame (\<^verbatim>\<open>pd.DataFrame\<close>) has a row index, the list of its row labels, and the
  ordered list of its labelled columns (what \<^verbatim>\<open>df.items()\<close> runs through); column
  labels may repeat, as pandas allows. In a frame of pandas every column is as long
  as the index.
\<close>

datatype dtype = NumericT | ObjectT

datatype ('o, 'n) series = NumericS "'n option list" | ObjectS "('o, 'n) pyval list"

datatype row_label = RowInt int | RowStr string

record ('o, 'n) frame =
  index :: "row_label list"
  items :: "(string \<times> ('o, 'n) series) list"

text \<open>The default index of a frame of \<open>n\<close> rows: the labels \<open>0, ..., n - 1\<close>.\<close>

definition default_index :: "nat \<Rightarrow> row_label list" where
  "default_index n = map (\<lambda>i. RowInt (int i)) [0..<n]"

text \<open>The \<^verbatim>\<open>dtype\<close> attribute of a column.\<close>

fun dtype_of :: "('o, 'n) series \<Rightarrow> dtype" where
  "dtype_of (NumericS xs) = NumericT"
| "dtype_of (ObjectS vs) = ObjectT"

fun box :: "'n option \<Rightarrow> ('o, 'n) pyval" where
  "box None = PyNaN"
| "box (Some n) = PyNum n"

text \<open>\<^verbatim>\<open>Series.tolist()\<close>: the values of a column as Python scalars.\<close>

fun tolist :: "('o, 'n) series \<Rightarrow> ('o, 'n) pyval list" where
  "tolist (NumericS xs) = map box xs"
| "tolist (ObjectS vs) = vs"

text \<open>\<^verbatim>\<open>df.columns\<close>, the column labels, and \<^verbatim>\<open>len(df)\<close>, the number of rows.\<close>

definition columns :: "('o, 'n) frame \<Rightarrow> string list" where
  "columns df = map fst (items df)"

definition row_count :: "('o, 'n) frame \<Rightarrow> nat" where
  "row_count df = length (index df)"

subsection \<open>Construction and dtype inference\<close>

text \<open>
  The frame constructor infers each column's dtype from its values. Values that are
  native numbers, \<^verbatim>\<open>nan\<close> and \<^verbatim>\<open>None\<close>, and not \<^verbatim>\<open>None\<close> throughout, make a numeric
  column (\<^verbatim>\<open>None\<close> turning into \<^verbatim>\<open>NaN\<close>); any other values make an \<^verbatim>\<open>object\<close> column
  holding them as they are. This is \<open>infer_series\<close>, which the constructor applies to
  the columns it collects from rows; there a column without values is an \<^verbatim>\<open>object\<close>
  column. For a dict of lists the constructor does the same on every non-empty list,
  but types an empty list as a numeric (\<^verbatim>\<open>float64\<close>) column: this is \<open>sanitize_list\<close>.
\<close>

fun is_native :: "('o, 'n) pyval \<Rightarrow> bool" where
  "is_native (PyObj obj) = False"
| "is_native v = True"

fun unbox :: "('o, 'n) pyval \<Rightarrow> 'n option" where
  "unbox (PyNum n) = Some n"
| "unbox v = None"

definition infer_series :: "('o, 'n) pyval list \<Rightarrow> ('o, 'n) series" where
  "infer_series vs =
     (if vs \<noteq> [] \<and> list_all is_native vs \<and> list_ex (\<lambda>v. v \<noteq> PyNone) vs
      then NumericS (map unbox vs) else ObjectS vs)"

definition sanitize_list :: "('o, 'n) pyval list \<Rightarrow> ('o, 'n) series" where
  "sanitize_list vs = (if vs = [] then NumericS [] else infer_series vs)"

text \<open>
  A Python \<^verbatim>\<open>dict\<close> keeps one value per key, in the order of first insertion; setting
  an existing key overwrites its value in place.
\<close>

primrec dict_setitem :: "'k \<Rightarrow> 'v \<Rightarrow> ('k \<times> 'v) list \<Rightarrow> ('k \<times> 'v) list" where
  "dict_setitem k v [] = [(k, v)]"
| "dict_setitem k v (p # ps) = (if fst p = k then (k, v) # ps else p # dict_setitem k v ps)"

text \<open>
  \<^verbatim>\<open>df.to_dict('list')\<close> builds \<^verbatim>\<open>{label: column.tolist()}\<close> over the columns from left to
  right; the row index is not part of it. \<^verbatim>\<open>pd.DataFrame(d)\<close> builds a frame from such
  a dict of lists, with the default index for the length of the lists. (A frame's
  columns all have the same length, so the constructor's length check cannot fail on
  the dict of a frame; it is not modelled.)
\<close>

definition to_dict_list :: "('o, 'n) frame \<Rightarrow> (string \<times> ('o, 'n) pyval list) list" where
  "to_dict_list df = foldl (\<lambda>d c. dict_setitem (fst c) (tolist (snd c)) d) [] (items df)"

definition DataFrame_dict :: "(string \<times> ('o, 'n) pyval list) list \<Rightarrow> ('o, 'n) frame" where
  "DataFrame_dict d =
     \<lparr>index = default_index (case d of [] \<Rightarrow> 0 | kv # _ \<Rightarrow> length (snd kv)),
      items = map (\<lambda>kv. (fst kv, sanitize_list (snd kv))) d\<rparr>"

text \<open>
  \<^verbatim>\<open>pd.DataFrame(data, columns=columns)\<close> on a list of rows: column \<open>j\<close> collects the
  \<open>j\<close>-th field of every row, and the index is the default one. Rows whose width is
  not the number of labels make the constructor raise \<^verbatim>\<open>ValueError\<close>.
\<close>

definition DataFrame_rows ::
  "('o, 'n) pyval list list \<Rightarrow> string list \<Rightarrow> error + ('o, 'n) frame" where
  "DataFrame_rows data cols =
     (if list_all (\<lambda>r. length r = length cols) data
      then Inr \<lparr>index = default_index (length data),
                items = map (\<lambda>j. (cols ! j, infer_series (map (\<lambda>r. r ! j) data)))
                          [0..<length cols]\<rparr>
      else Inl ValueError)"

subsection \<open>Column access and numeric conversion\<close>

text \<open>
  \<^verbatim>\<open>df[col]\<close> is a column when exactly one column carries the label. When the label
  repeats, pandas returns a sub-frame, which has no \<^verbatim>\<open>dtype\<close> attribute: the attribute
  access that follows in both loops raises \<^verbatim>\<open>AttributeError\<close>.
\<close>

definition getitem :: "('o, 'n) frame \<Rightarrow> string \<Rightarrow> error + ('o, 'n) series" where
  "getitem df col =
     (case filter (\<lambda>c. fst c = col) (items df) of
        [] \<Rightarrow> Inl KeyError
      | [c] \<Rightarrow> Inr (snd c)
      | _ \<Rightarrow> Inl AttributeError)"

text \<open>\<^verbatim>\<open>df[col] = s\<close> for a label the frame has: the column is replaced in place.\<close>

definition setitem :: "('o, 'n) frame \<Rightarrow> string \<Rightarrow> ('o, 'n) series \<Rightarrow> ('o, 'n) frame" where
  "setitem df col s = df\<lparr>items := map (\<lambda>c. if fst c = col then (col, s) else c) (items df)\<rparr>"

text \<open>
  \<^verbatim>\<open>pd.to_numeric(s, errors='coerce')\<close>: a native number stays, \<^verbatim>\<open>None\<close> and \<^verbatim>\<open>nan\<close>
  become \<^verbatim>\<open>NaN\<close>, and any other object goes through the library's value parser,
  the parameter \<open>parse\<close>, which yields a number or fails; with \<^verbatim>\<open>'coerce'\<close> a failed
  parse gives \<^verbatim>\<open>NaN\<close> instead of raising. The result is a numeric column. The function
  returns a result of sum type so that a caller's exception handler has its branch.
\<close>

fun numeric :: "('o \<Rightarrow> 'n option) \<Rightarrow> ('o, 'n) pyval \<Rightarrow> 'n option" where
  "numeric parse (PyNum n) = Some n"
| "numeric parse (PyObj obj) = parse obj"
| "numeric parse v = None"

fun to_numeric_coerce :: "('o \<Rightarrow> 'n option) \<Rightarrow> ('o, 'n) series \<Rightarrow> error + ('o, 'n) series" where
  "to_numeric_coerce parse (NumericS xs) = Inr (NumericS xs)"
| "to_numeric_coerce parse (ObjectS vs) = Inr (NumericS (map (numeric parse) vs))"

text \<open>\<^verbatim>\<open>s.isna().all()\<close>: every value is missing; true of the empty column.\<close>

fun isna_all :: "('o, 'n) series \<Rightarrow> bool" where
  "isna_all (NumericS xs) = list_all (\<lambda>x. x = None) xs"
| "isna_all (ObjectS vs) = list_all (\<lambda>v. v = PyNone \<or> v = PyNaN) vs"

section \<open>The numeric normalizer\<close>

text \<open>
  \<^verbatim>\<open>DatabricksDataLayer._convert_numeric_columns\<close> (\<^verbatim>\<open>data_layer.py\<close>): the frame is
  rebuilt from its dict of lists, then every column of dtype \<^verbatim>\<open>object\<close> is converted
  and replaced unless the conversion is \<^verbatim>\<open>NaN\<close> throughout. An exception of the
  conversion is caught and the column skipped.
\<close>

fun convert_numeric_loop ::
  "('o \<Rightarrow> 'n option) \<Rightarrow> string list \<Rightarrow> ('o, 'n) frame \<Rightarrow> error + ('o, 'n) frame" where
  "convert_numeric_loop parse [] df = Inr df"
| "convert_numeric_loop parse (col # cols) df =
     (case getitem df col of
        Inl e \<Rightarrow> Inl e
      | Inr s \<Rightarrow>
          if dtype_of s = ObjectT then
            (case to_numeric_coerce parse s of
               Inl e \<Rightarrow> convert_numeric_loop parse cols df
             | Inr converted \<Rightarrow>
                 if \<not> isna_all converted
                 then convert_numeric_loop parse cols (setitem df col converted)
                 else convert_numeric_loop parse cols df)
          else convert_numeric_loop parse cols df)"

definition convert_numeric_columns ::
  "('o \<Rightarrow> 'n option) \<Rightarrow> ('o, 'n) frame \<Rightarrow> error + ('o, 'n) frame" where
  "convert_numeric_columns parse df =
     (let df' = DataFrame_dict (to_dict_list df)
      in convert_numeric_loop parse (columns df') df')"



text \<open>
  What the loop does to one column, in the words of the spec (section 4.3): a column of
  generic values is replaced by its numeric parse, unparseable cells becoming null,
  when at least one value parses; otherwise it is left as it is. A natively numeric
  column is never touched.
\<close>

fun normalize_column :: "('o \<Rightarrow> 'n option) \<Rightarrow> ('o, 'n) series \<Rightarrow> ('o, 'n) series" where
  "normalize_column parse (NumericS xs) = NumericS xs"
| "normalize_column parse (ObjectS vs) =
     (if list_ex (\<lambda>v. numeric parse v \<noteq> None) vs
      then NumericS (map (numeric parse) vs) else ObjectS vs)"

text \<open>
  A column carries the inferred dtype when rebuilding it from the list of its values
  gives the column back. Every numeric column is of this kind, and so is every column
  of a frame built from a dict of lists.
\<close>

definition inferred :: "('o, 'n) series \<Rightarrow> bool" where
  "inferred s \<longleftrightarrow> sanitize_list (tolist s) = s"

text \<open>
  A frame has the default index when its index is the default one for the length of
  its first column (no rows when it has no column).
\<close>

definition default_indexed :: "('o, 'n) frame \<Rightarrow> bool" where
  "default_indexed df \<longleftrightarrow>
     index df = default_index (case items df of [] \<Rightarrow> 0 | c # _ \<Rightarrow> length (tolist (snd c)))"

text \<open>
  For examples with strings: the library's parser on plain decimal integer literals
  with an optional minus sign. Everything else, the empty string included, does not
  parse. The general results below hold for every parser.
\<close>

fun index_of :: "'a \<Rightarrow> 'a list \<Rightarrow> nat option" where
  "index_of x [] = None"
| "index_of x (y # ys) = (if x = y then Some 0 else map_option Suc (index_of x ys))"

definition digit_of :: "char \<Rightarrow> nat option" where
  "digit_of c = index_of c ''0123456789''"

fun parse_digits :: "nat \<Rightarrow> string \<Rightarrow> nat option" where
  "parse_digits acc [] = Some acc"
| "parse_digits acc (c # cs) =
     (case digit_of c of None \<Rightarrow> None | Some d \<Rightarrow> parse_digits (10 * acc + d) cs)"

definition parse_decimal :: "string \<Rightarrow> int option" where
  "parse_decimal s =
     (case s of
        [] \<Rightarrow> None
      | c # cs \<Rightarrow>
          if c = CHR ''-''
          then (if cs = [] then None else map_option (\<lambda>n. - int n) (parse_digits 0 cs))
          else map_option int (parse_digits 0 s))"

section \<open>The data layer: connection resolver and query executor\<close>

text \<open>
  The process environment maps variable names to values. \<^verbatim>\<open>os.getenv(name)\<close> is the
  value or \<^verbatim>\<open>None\<close>; \<^verbatim>\<open>os.getenv(name, default)\<close> is the value or the default. Python's
  truth test on the result holds for a non-empty string only: a variable set to the
  empty string counts as absent.
\<close>

type_synonym environ = "string \<Rightarrow> string option"

definition getenv :: "environ \<Rightarrow> string \<Rightarrow> string option" where
  "getenv env name = env name"

definition getenv_default :: "environ \<Rightarrow> string \<Rightarrow> string \<Rightarrow> string" where
  "getenv_default env name d = (case env name of None \<Rightarrow> d | Some v \<Rightarrow> v)"

fun truthy :: "string option \<Rightarrow> bool" where
  "truthy None = False"
| "truthy (Some s) = (s \<noteq> [])"

text \<open>
  \<^verbatim>\<open>s.replace(old, new)\<close> for a non-empty \<open>old\<close>: every occurrence, found from left
  to right without overlap, is replaced. (The source calls it with non-empty
  constants only; for an empty \<open>old\<close> the function below returns \<open>s\<close>.)
\<close>

fun str_replace :: "string \<Rightarrow> string \<Rightarrow> string \<Rightarrow> string" where
  "str_replace old new [] = []"
| "str_replace old new (c # cs) =
     (if old \<noteq> [] \<and> take (length old) (c # cs) = old
      then new @ str_replace old new (drop (length old) (c # cs))
      else c # str_replace old new cs)"

text \<open>
  The state of a \<^verbatim>\<open>DatabricksDataLayer\<close> object: the attributes \<^verbatim>\<open>_connection\<close>,
  \<^verbatim>\<open>_spark\<close> and \<^verbatim>\<open>_use_sql_connector\<close>, each \<^verbatim>\<open>None\<close> after \<^verbatim>\<open>__init__\<close>. Connections
  and sessions are opaque handles.
\<close>

type_synonym conn = nat
type_synonym session = nat

record layer =
  self_connection :: "conn option"
  self_spark :: "session option"
  self_use_sql_connector :: "bool option"

definition init :: layer where
  "init = \<lparr>self_connection = None, self_spark = None, self_use_sql_connector = None\<rparr>"

text \<open>
  The world outside the process: the environment, the wire client
  (\<^verbatim>\<open>databricks.sql.connect\<close>; opening a cursor and \<^verbatim>\<open>execute\<close> on it, answered by the
  column names of \<^verbatim>\<open>cursor.description\<close> and the rows of \<^verbatim>\<open>fetchall()\<close>), and the managed session
  (\<^verbatim>\<open>DatabricksSession.builder.getOrCreate()\<close>; \<^verbatim>\<open>sql(query).toPandas()\<close>). Each call
  returns or raises.
\<close>

record ('o, 'n) world =
  environ :: environ
  sql_connect :: "string \<Rightarrow> string \<Rightarrow> string \<Rightarrow> error + conn"
  cursor_execute :: "conn \<Rightarrow> string \<Rightarrow> error + (string list \<times> ('o, 'n) pyval list list)"
  session_getOrCreate :: "error + session"
  sql_toPandas :: "session \<Rightarrow> string \<Rightarrow> error + ('o, 'n) frame"

text \<open>
  \<^verbatim>\<open>_detect_connection_type\<close>: \<open>True\<close> for the SQL connector (warehouse), \<open>False\<close> for
  Databricks Connect (cluster). The decision is stored in \<^verbatim>\<open>_use_sql_connector\<close>.
\<close>

definition detect_connection_type :: "environ \<Rightarrow> layer \<Rightarrow> bool \<times> layer" where
  "detect_connection_type env self =
     (case self_use_sql_connector self of
        Some b \<Rightarrow> (b, self)
      | None \<Rightarrow>
          if truthy (getenv env ''DATABRICKS_RUNTIME_VERSION'')
          then (False, self\<lparr>self_use_sql_connector := Some False\<rparr>)
          else if truthy (getenv env ''DATABRICKS_WAREHOUSE_ID'')
                  \<or> truthy (getenv env ''DATABRICKS_HTTP_PATH'')
          then (True, self\<lparr>self_use_sql_connector := Some True\<rparr>)
          else if truthy (getenv env ''DATABRICKS_CLUSTER_ID'')
          then (False, self\<lparr>self_use_sql_connector := Some False\<rparr>)
          else (True, self\<lparr>self_use_sql_connector := Some True\<rparr>))"

text \<open>Calling \<^verbatim>\<open>_detect_connection_type\<close> again and again, under one environment per call.\<close>

fun detect_calls :: "environ list \<Rightarrow> layer \<Rightarrow> bool list \<times> layer" where
  "detect_calls [] self = ([], self)"
| "detect_calls (env # envs) self =
     (case detect_connection_type env self of
        (b, self') \<Rightarrow> (case detect_calls envs self' of (bs, self'') \<Rightarrow> (b # bs, self'')))"

text \<open>
  The spec's wording of the decision (section 4.1), over the four signals: managed-runtime
  marker, warehouse identifier, explicit wire-path, cluster identifier.
\<close>

datatype ConnectionMode = WarehouseSQL | ManagedSession

definition resolveMode :: "bool \<Rightarrow> bool \<Rightarrow> bool \<Rightarrow> bool \<Rightarrow> ConnectionMode" where
  "resolveMode managed_marker warehouse_id wire_path cluster_id =
     (if managed_marker then ManagedSession
      else if warehouse_id \<or> wire_path then WarehouseSQL
      else if cluster_id then ManagedSession
      else WarehouseSQL)"

fun mode_of :: "bool \<Rightarrow> ConnectionMode" where
  "mode_of True = WarehouseSQL"
| "mode_of False = ManagedSession"

definition present :: "environ \<Rightarrow> string \<Rightarrow> bool" where
  "present env name = truthy (getenv env name)"

text \<open>
  \<^verbatim>\<open>_get_sql_connection\<close>. The second component of the result lists the calls made to
  the wire client (\<^verbatim>\<open>sql.connect\<close>), each with its host, path and token. The import of
  the client module in the first line of the function is taken to succeed.
\<close>

definition http_path_of :: "environ \<Rightarrow> string option" where
  "http_path_of env =
     (let warehouse_id = getenv env ''DATABRICKS_WAREHOUSE_ID'';
          http_path = getenv env ''DATABRICKS_HTTP_PATH''
      in if \<not> truthy http_path \<and> truthy warehouse_id
         then (case warehouse_id of
                 Some w \<Rightarrow> Some (''/sql/1.0/warehouses/'' @ w)
               | None \<Rightarrow> http_path)
         else http_path)"

definition host_of :: "environ \<Rightarrow> string" where
  "host_of env =
     str_replace ''http://'' [] (str_replace ''https://'' [] (getenv_default env ''DATABRICKS_HOST'' []))"

definition get_sql_connection ::
  "('o, 'n) world \<Rightarrow> (error + conn) \<times> (string \<times> string \<times> string) list" where
  "get_sql_connection w =
     (let host = host_of (environ w);
          token = getenv (environ w) ''DATABRICKS_TOKEN'';
          http_path = http_path_of (environ w)
      in case (token, http_path) of
           (Some t, Some p) \<Rightarrow>
             if host = [] \<or> t = [] \<or> p = [] then (Inl ValueError, [])
             else (sql_connect w host p t, [(host, p, t)])
         | _ \<Rightarrow> (Inl ValueError, []))"

text \<open>\<^verbatim>\<open>_get_spark_session\<close>: both branches ask the session builder.\<close>

definition get_spark_session :: "('o, 'n) world \<Rightarrow> error + session" where
  "get_spark_session w =
     (if truthy (getenv (environ w) ''DATABRICKS_RUNTIME_VERSION'')
      then session_getOrCreate w else session_getOrCreate w)"

text \<open>The properties \<^verbatim>\<open>connection\<close> and \<^verbatim>\<open>spark\<close>, with their lazy initialisation.\<close>

definition connection :: "('o, 'n) world \<Rightarrow> layer \<Rightarrow> (error + conn option) \<times> layer" where
  "connection w self =
     (if self_connection self = None then
        (case detect_connection_type (environ w) self of
           (use_sql, self1) \<Rightarrow>
             if use_sql then
               (case fst (get_sql_connection w) of
                  Inl e \<Rightarrow> (Inl e, self1)
                | Inr c \<Rightarrow> (Inr (Some c), self1\<lparr>self_connection := Some c\<rparr>))
             else (Inr (self_connection self1), self1))
      else (Inr (self_connection self), self))"

definition spark :: "('o, 'n) world \<Rightarrow> layer \<Rightarrow> (error + session option) \<times> layer" where
  "spark w self =
     (if self_spark self = None then
        (case detect_connection_type (environ w) self of
           (use_sql, self1) \<Rightarrow>
             if \<not> use_sql then
               (case get_spark_session w of
                  Inl e \<Rightarrow> (Inl e, self1)
                | Inr sp \<Rightarrow> (Inr (Some sp), self1\<lparr>self_spark := Some sp\<rparr>))
             else (Inr (self_spark self1), self1))
      else (Inr (self_spark self), self))"

text \<open>
  \<^verbatim>\<open>_execute_query\<close>. Calling a method on \<^verbatim>\<open>None\<close> raises \<^verbatim>\<open>AttributeError\<close>.
\<close>

definition execute_query ::
  "('o \<Rightarrow> 'n option) \<Rightarrow> ('o, 'n) world \<Rightarrow> layer \<Rightarrow> string \<Rightarrow> (error + ('o, 'n) frame) \<times> layer" where
  "execute_query parse w self query =
     (case detect_connection_type (environ w) self of
        (use_sql, self1) \<Rightarrow>
          if use_sql then
            (case connection w self1 of
               (Inl e, self2) \<Rightarrow> (Inl e, self2)
             | (Inr None, self2) \<Rightarrow> (Inl AttributeError, self2)
             | (Inr (Some c), self2) \<Rightarrow>
                 (case cursor_execute w c query of
                    Inl e \<Rightarrow> (Inl e, self2)
                  | Inr (description, data) \<Rightarrow>
                      (case DataFrame_rows data description of
                         Inl e \<Rightarrow> (Inl e, self2)
                       | Inr df \<Rightarrow> (convert_numeric_columns parse df, self2))))
          else
            (case spark w self1 of
               (Inl e, self2) \<Rightarrow> (Inl e, self2)
             | (Inr None, self2) \<Rightarrow> (Inl AttributeError, self2)
             | (Inr (Some sp), self2) \<Rightarrow> (sql_toPandas w sp query, self2)))"

definition execute_custom_query ::
  "('o \<Rightarrow> 'n option) \<Rightarrow> ('o, 'n) world \<Rightarrow> layer \<Rightarrow> string \<Rightarrow> (error + ('o, 'n) frame) \<times> layer" where
  "execute_custom_query parse w self query = execute_query parse w self query"

text \<open>\<^verbatim>\<open>health_check\<close>: the probe query inside \<^verbatim>\<open>try\<close>, \<^verbatim>\<open>except Exception\<close> giving \<open>False\<close>.\<close>

definition health_check :: "('o \<Rightarrow> 'n option) \<Rightarrow> ('o, 'n) world \<Rightarrow> layer \<Rightarrow> bool \<times> layer" where
  "health_check parse w self =
     (case execute_query parse w self ''SELECT 1 as health'' of
        (Inl e, self') \<Rightarrow> (False, self')
      | (Inr df, self') \<Rightarrow> (True, self'))"

section \<open>The metric catalog and its result cache\<close>

text \<open>
  The cached catalog entries of \<^verbatim>\<open>DatabricksDataLayer\<close>: the methods decorated with
  \<^verbatim>\<open>@st.cache_data(ttl=3600, show_spinner=False)\<close>. Their first argument is named
  \<^verbatim>\<open>_self\<close>, which the decorator leaves out of the cache key; the remaining arguments
  (the row limit of the ranking metrics) are the parameters.
\<close>

datatype metric =
    Orders_summary | Kpi_metrics | Orders_by_status | Orders_by_priority
  | Top_customers | Revenue_by_region | Market_segment_analysis
  | Top_parts_by_revenue | Supplier_performance | Monthly_trend_by_segment
  | Order_fulfillment_metrics

fun ttl :: "metric \<Rightarrow> nat" where
  "ttl Orders_summary = 3600"
| "ttl Kpi_metrics = 3600"
| "ttl Orders_by_status = 3600"
| "ttl Orders_by_priority = 3600"
| "ttl Top_customers = 3600"
| "ttl Revenue_by_region = 3600"
| "ttl Market_segment_analysis = 3600"
| "ttl Top_parts_by_revenue = 3600"
| "ttl Supplier_performance = 3600"
| "ttl Monthly_trend_by_segment = 3600"
| "ttl Order_fulfillment_metrics = 3600"

type_synonym cache_key = "metric \<times> int list"

text \<open>
  The cache holds, per key, a value and the time it was stored (in seconds). The list
  \<open>executions\<close> records every run of the underlying query execution, oldest first.
\<close>

record 'v cache_state =
  entries :: "cache_key \<Rightarrow> ('v \<times> nat) option"
  executions :: "cache_key list"

definition empty_cache :: "'v cache_state" where
  "empty_cache = \<lparr>entries = (\<lambda>k. None), executions = []\<rparr>"

text \<open>
  Modelled from the spec: the caching decorator \<^verbatim>\<open>st.cache_data\<close> belongs to the UI
  framework and is not among the source files. Section 4.4 of the spec describes it as
  \<^verbatim>\<open>getOrCompute(metricId, params, ttlSeconds, compute)\<close>: look the exact key up; on a
  hit younger than the time-to-live return the stored value without running
  \<open>compute\<close>; on an older hit or a miss run \<open>compute\<close>, store its result with a fresh
  timestamp and return it. Section 7 adds that a failed \<open>compute\<close> leaves no entry.
  \<open>now\<close> is the time of the call and \<open>compute\<close> what the execution yields if it is run.
\<close>

definition getOrCompute ::
  "cache_key \<Rightarrow> nat \<Rightarrow> nat \<Rightarrow> (error + 'v) \<Rightarrow> 'v cache_state \<Rightarrow> (error + 'v) \<times> 'v cache_state" where
  "getOrCompute key ttl_seconds now compute st =
     (let run =
        (case compute of
           Inl e \<Rightarrow> (Inl e, st\<lparr>executions := executions st @ [key]\<rparr>)
         | Inr v \<Rightarrow>
             (Inr v, st\<lparr>entries := (entries st)(key := Some (v, now)),
                        executions := executions st @ [key]\<rparr>))
      in case entries st key of
           None \<Rightarrow> run
         | Some (v, stored) \<Rightarrow> if now - stored < ttl_seconds then (Inr v, st) else run)"

text \<open>
  A call of a catalog entry, such as \<^verbatim>\<open>get_orders_summary()\<close> or
  \<^verbatim>\<open>get_top_customers(limit)\<close>: the decorated method, with the time-to-live of its
  decorator. \<open>compute\<close> stands for the method body, \<^verbatim>\<open>_self._execute_query(query)\<close>.
\<close>

definition get_metric ::
  "metric \<Rightarrow> int list \<Rightarrow> nat \<Rightarrow> (error + 'v) \<Rightarrow> 'v cache_state \<Rightarrow> (error + 'v) \<times> 'v cache_state" where
  "get_metric m params now compute st = getOrCompute (m, params) (ttl m) now compute st"

section \<open>Example worlds\<close>

text \<open>
  Three concrete deployments for the examples below. In \<open>token_only_world\<close> only the
  token is set; its backends would answer if they were asked. \<open>warehouse_world\<close> is a
  complete warehouse configuration whose wire client accepts exactly the configured
  host and path; \<open>cluster_world\<close> names a cluster, and its session returns a column
  of generic values.
\<close>

definition token_only_world :: "(string, int) world" where
  "token_only_world =
     \<lparr>environ = map_of [(''DATABRICKS_TOKEN'', ''dapi-secret'')],
      sql_connect = (\<lambda>h p t. Inr 1),
      cursor_execute = (\<lambda>c q. Inr ([''health''], [[PyNum 1]])),
      session_getOrCreate = Inr 2,
      sql_toPandas = (\<lambda>s q.
        Inr \<lparr>index = [RowInt 0], items = [(''health'', NumericS [Some 1])]\<rparr>)\<rparr>"

definition warehouse_world :: "(string, int) world" where
  "warehouse_world =
     \<lparr>environ = map_of [(''DATABRICKS_HOST'', ''https://adb.example.com''),
                        (''DATABRICKS_TOKEN'', ''dapi-secret''),
                        (''DATABRICKS_WAREHOUSE_ID'', ''w1'')],
      sql_connect = (\<lambda>h p t.
        if h = ''adb.example.com'' \<and> p = ''/sql/1.0/warehouses/w1'' \<and> t = ''dapi-secret''
        then Inr 1 else Inl (RemoteError 0)),
      cursor_execute = (\<lambda>c q.
        Inr ([''status'', ''total_value''],
             [[PyObj ''F'', PyObj ''10''], [PyObj ''O'', PyObj ''20'']])),
      session_getOrCreate = Inl (RemoteError 1),
      sql_toPandas = (\<lambda>s q. Inl (RemoteError 1))\<rparr>"

definition cluster_world :: "(string, int) world" where
  "cluster_world =
     \<lparr>environ = map_of [(''DATABRICKS_CLUSTER_ID'', ''0101-abc'')],
      sql_connect = (\<lambda>h p t. Inl (RemoteError 0)),
      cursor_execute = (\<lambda>c q. Inl (RemoteError 0)),
      session_getOrCreate = Inr 7,
      sql_toPandas = (\<lambda>s q.
        Inr \<lparr>index = [RowInt 0, RowInt 1],
             items = [(''status'', ObjectS [PyObj ''F'', PyObj ''O'']),
                      (''total_value'', ObjectS [PyObj ''10'', PyObj ''20''])]\<rparr>)\<rparr>"

section \<open>Results on the connection resolver\<close>

lemma detect_pins:
  "self_use_sql_connector (snd (detect_connection_type env self)) =
     Some (fst (detect_connection_type env self))"
  by (simp add: detect_connection_type_def split: option.splits)

lemma detect_memo:
  "self_use_sql_connector self = Some b \<Longrightarrow> detect_connection_type env self = (b, self)"
  by (simp add: detect_connection_type_def)

lemma detect_calls_memo:
  "self_use_sql_connector self = Some b \<Longrightarrow>
   detect_calls envs self = (replicate (length envs) b, self)"
  by (induction envs) (simp_all add: detect_memo)

text \<open>
  Claim C2. On an object whose mode is not yet decided, \<^verbatim>\<open>_detect_connection_type\<close>
  returns, for every environment, the mode the priority order of the spec dictates:
  managed-runtime marker, else warehouse identifier or wire-path, else cluster
  identifier, else the warehouse default. A signal is present when the variable holds
  a non-empty string.
\<close>

theorem detect_connection_type_priority:
  "self_use_sql_connector self = None \<Longrightarrow>
   mode_of (fst (detect_connection_type env self)) =
     resolveMode (present env ''DATABRICKS_RUNTIME_VERSION'')
       (present env ''DATABRICKS_WAREHOUSE_ID'') (present env ''DATABRICKS_HTTP_PATH'')
       (present env ''DATABRICKS_CLUSTER_ID'')"
  by (simp add: detect_connection_type_def resolveMode_def present_def)

theorem detect_connection_type_priority_witness:
  "self_use_sql_connector init = None \<and>
   mode_of (fst (detect_connection_type
      (map_of [(''DATABRICKS_CLUSTER_ID'', ''0101-abc''), (''DATABRICKS_HTTP_PATH'', [])]) init))
     = ManagedSession \<and>
   mode_of (fst (detect_connection_type
      (map_of [(''DATABRICKS_CLUSTER_ID'', ''0101-abc''), (''DATABRICKS_WAREHOUSE_ID'', ''w1'')]) init))
     = WarehouseSQL"
  using detect_connection_type_priority [of init
      "map_of [(''DATABRICKS_CLUSTER_ID'', ''0101-abc''), (''DATABRICKS_HTTP_PATH'', [])]"]
    detect_connection_type_priority [of init
      "map_of [(''DATABRICKS_CLUSTER_ID'', ''0101-abc''), (''DATABRICKS_WAREHOUSE_ID'', ''w1'')]"]
  by (simp add: init_def resolveMode_def present_def getenv_def)

text \<open>
  Claim C7. Once a call of \<^verbatim>\<open>_detect_connection_type\<close> has returned, every later call
  returns the same mode and leaves the object as it is, whatever the environment has
  become in the meantime.
\<close>

theorem detect_connection_type_memoized:
  "detect_calls envs (snd (detect_connection_type env self)) =
     (replicate (length envs) (fst (detect_connection_type env self)),
      snd (detect_connection_type env self))"
  by (rule detect_calls_memo) (rule detect_pins)

theorem detect_connection_type_memoized_witness:
  "fst (detect_connection_type (map_of [(''DATABRICKS_CLUSTER_ID'', ''0101-abc'')]) init) = False \<and>
   fst (detect_calls
      [map_of [(''DATABRICKS_WAREHOUSE_ID'', ''w1'')], (\<lambda>name. None)]
      (snd (detect_connection_type (map_of [(''DATABRICKS_CLUSTER_ID'', ''0101-abc'')]) init)))
     = [False, False]"
  using detect_connection_type_memoized
    [of "[map_of [(''DATABRICKS_WAREHOUSE_ID'', ''w1'')], (\<lambda>name. None)]"
        "map_of [(''DATABRICKS_CLUSTER_ID'', ''0101-abc'')]" init]
  by (simp add: init_def detect_connection_type_def getenv_def)

section \<open>Results on the health check and the configuration check\<close>

text \<open>
  Claim C8. \<^verbatim>\<open>health_check\<close> returns a boolean and no exception: \<open>True\<close> exactly when
  the probe query \<^verbatim>\<open>SELECT 1 as health\<close> executes, \<open>False\<close> exactly when the execution
  raises, whatever the error.
\<close>

theorem health_check_swallows_errors:
  "(fst (health_check parse w self) \<longleftrightarrow>
      (\<exists>df. fst (execute_query parse w self ''SELECT 1 as health'') = Inr df)) \<and>
   (\<not> fst (health_check parse w self) \<longleftrightarrow>
      (\<exists>e. fst (execute_query parse w self ''SELECT 1 as health'') = Inl e))"
  by (auto simp: health_check_def split: prod.splits sum.splits)

lemma token_only_host: "host_of (environ token_only_world) = []"
  by (simp add: token_only_world_def host_of_def getenv_default_def)

lemma token_only_get: "get_sql_connection token_only_world = (Inl ValueError, [])"
  by (simp add: get_sql_connection_def token_only_host)
     (simp add: token_only_world_def getenv_def http_path_of_def)

lemma token_only_exec:
  "fst (execute_query parse_decimal token_only_world init ''SELECT 1 as health'') = Inl ValueError"
  by (simp add: execute_query_def connection_def token_only_get detect_connection_type_def init_def)
     (simp add: token_only_world_def getenv_def)

theorem health_check_swallows_errors_witness:
  "fst (execute_query parse_decimal token_only_world init ''SELECT 1 as health'') = Inl ValueError \<and>
   fst (health_check parse_decimal token_only_world init) = False"
  using health_check_swallows_errors [of parse_decimal token_only_world init]
  by (simp add: token_only_exec)

text \<open>
  Claim C4. \<^verbatim>\<open>_get_sql_connection\<close> raises the configuration error (\<^verbatim>\<open>ValueError\<close>) with no
  call to the wire client exactly when the host (after the scheme prefix is removed),
  the token or the HTTP path is missing; otherwise it calls the wire client once, with
  the host, path and token of the environment. The HTTP path is the wire-path variable
  when that is set and otherwise \<^verbatim>\<open>/sql/1.0/warehouses/{id}\<close> from the warehouse identifier.
  An unset or empty host variable gives a missing host.
\<close>

theorem get_sql_connection_configuration_error:
  "(get_sql_connection w = (Inl ValueError, []) \<longleftrightarrow>
      host_of (environ w) = [] \<or> \<not> truthy (getenv (environ w) ''DATABRICKS_TOKEN'')
        \<or> \<not> truthy (http_path_of (environ w))) \<and>
   (snd (get_sql_connection w) = [] \<longleftrightarrow>
      host_of (environ w) = [] \<or> \<not> truthy (getenv (environ w) ''DATABRICKS_TOKEN'')
        \<or> \<not> truthy (http_path_of (environ w))) \<and>
   (\<forall>h p t. snd (get_sql_connection w) = [(h, p, t)] \<longrightarrow>
      h = host_of (environ w) \<and> http_path_of (environ w) = Some p \<and>
      getenv (environ w) ''DATABRICKS_TOKEN'' = Some t \<and>
      fst (get_sql_connection w) = sql_connect w h p t) \<and>
   http_path_of (environ w) =
     (if present (environ w) ''DATABRICKS_HTTP_PATH'' then getenv (environ w) ''DATABRICKS_HTTP_PATH''
      else if present (environ w) ''DATABRICKS_WAREHOUSE_ID''
      then map_option (\<lambda>i. ''/sql/1.0/warehouses/'' @ i) (getenv (environ w) ''DATABRICKS_WAREHOUSE_ID'')
      else getenv (environ w) ''DATABRICKS_HTTP_PATH'') \<and>
   (\<not> present (environ w) ''DATABRICKS_HOST'' \<longrightarrow> host_of (environ w) = [])"
proof (intro conjI)
  show "get_sql_connection w = (Inl ValueError, []) \<longleftrightarrow>
      host_of (environ w) = [] \<or> \<not> truthy (getenv (environ w) ''DATABRICKS_TOKEN'')
        \<or> \<not> truthy (http_path_of (environ w))"
    by (auto simp: get_sql_connection_def Let_def split: option.splits)
  show "snd (get_sql_connection w) = [] \<longleftrightarrow>
      host_of (environ w) = [] \<or> \<not> truthy (getenv (environ w) ''DATABRICKS_TOKEN'')
        \<or> \<not> truthy (http_path_of (environ w))"
    by (auto simp: get_sql_connection_def Let_def split: option.splits)
  show "\<forall>h p t. snd (get_sql_connection w) = [(h, p, t)] \<longrightarrow>
      h = host_of (environ w) \<and> http_path_of (environ w) = Some p \<and>
      getenv (environ w) ''DATABRICKS_TOKEN'' = Some t \<and>
      fst (get_sql_connection w) = sql_connect w h p t"
    by (auto simp: get_sql_connection_def Let_def split: option.splits if_splits)
  show "http_path_of (environ w) =
     (if present (environ w) ''DATABRICKS_HTTP_PATH'' then getenv (environ w) ''DATABRICKS_HTTP_PATH''
      else if present (environ w) ''DATABRICKS_WAREHOUSE_ID''
      then map_option (\<lambda>i. ''/sql/1.0/warehouses/'' @ i) (getenv (environ w) ''DATABRICKS_WAREHOUSE_ID'')
      else getenv (environ w) ''DATABRICKS_HTTP_PATH'')"
    by (auto simp: http_path_of_def present_def Let_def split: option.splits)
  show "\<not> present (environ w) ''DATABRICKS_HOST'' \<longrightarrow> host_of (environ w) = []"
    by (auto simp: present_def host_of_def getenv_def getenv_default_def split: option.splits)
qed

theorem get_sql_connection_configuration_error_witness:
  "get_sql_connection token_only_world = (Inl ValueError, []) \<and>
   host_of (environ token_only_world) = [] \<and>
   get_sql_connection warehouse_world = (Inr 1, [(''adb.example.com'', ''/sql/1.0/warehouses/w1'', ''dapi-secret'')])"
  using get_sql_connection_configuration_error [of token_only_world]
  by (simp add: token_only_host)
     (simp add: get_sql_connection_def host_of_def http_path_of_def getenv_def getenv_default_def
        warehouse_world_def)

section \<open>Results on the result cache\<close>

lemma ttl_3600: "ttl m = 3600"
  by (cases m) simp_all

text \<open>
  Claim C5. For every catalog entry and parameter list: when a call at time \<open>t1\<close>
  misses the cache and its execution succeeds, the result is stored; a second call
  with the same key less than 3600 seconds later returns the stored result without
  another execution, so that the two calls ran the execution once; a call 3600 seconds
  or more after the entry was stored runs the execution again and, when that
  succeeds, stores the fresh result with the new time.
\<close>

theorem cache_ttl:
  assumes miss: "entries st (m, params) = None"
    and first: "get_metric m params t1 (Inr r1) st = (res1, st1)"
  shows "res1 = Inr r1 \<and> executions st1 = executions st @ [(m, params)] \<and>
    (t1 \<le> t2 \<and> t2 < t1 + 3600 \<longrightarrow> get_metric m params t2 c2 st1 = (Inr r1, st1)) \<and>
    (t1 + 3600 \<le> t2 \<longrightarrow>
       fst (get_metric m params t2 c2 st1) = c2 \<and>
       executions (snd (get_metric m params t2 c2 st1)) =
         executions st @ [(m, params), (m, params)] \<and>
       (\<forall>r2. c2 = Inr r2 \<longrightarrow> entries (snd (get_metric m params t2 c2 st1)) (m, params) = Some (r2, t2)))"
proof -
  have st1: "st1 = st\<lparr>entries := (entries st)((m, params) := Some (r1, t1)),
                      executions := executions st @ [(m, params)]\<rparr>"
    and res1: "res1 = Inr r1"
    using miss first by (simp_all add: get_metric_def getOrCompute_def)
  have hit: "get_metric m params t2 c2 st1 = (Inr r1, st1)" if "t1 \<le> t2" "t2 < t1 + 3600"
  proof -
    from that have "t2 - t1 < 3600" by arith
    then show ?thesis by (simp add: get_metric_def getOrCompute_def st1 ttl_3600)
  qed
  have late: "fst (get_metric m params t2 c2 st1) = c2 \<and>
       executions (snd (get_metric m params t2 c2 st1)) =
         executions st @ [(m, params), (m, params)] \<and>
       (\<forall>r2. c2 = Inr r2 \<longrightarrow> entries (snd (get_metric m params t2 c2 st1)) (m, params) = Some (r2, t2))"
    if "t1 + 3600 \<le> t2"
  proof -
    from that have "\<not> t2 - t1 < 3600" by arith
    then show ?thesis
      by (cases c2) (simp_all add: get_metric_def getOrCompute_def st1 ttl_3600)
  qed
  show ?thesis using res1 st1 hit late by simp
qed

theorem cache_ttl_witness:
  "entries (empty_cache :: int cache_state) (Top_customers, [10]) = None \<and>
   get_metric Top_customers [10] 100 (Inr 5) empty_cache =
     (Inr (5::int), \<lparr>entries = (\<lambda>k. None)((Top_customers, [10]) := Some (5, 100)),
                     executions = [(Top_customers, [10])]\<rparr>) \<and>
   fst (get_metric Top_customers [10] 3699 (Inr 6)
      (snd (get_metric Top_customers [10] 100 (Inr 5) (empty_cache :: int cache_state)))) = Inr 5 \<and>
   executions (snd (get_metric Top_customers [10] 3699 (Inr 6)
      (snd (get_metric Top_customers [10] 100 (Inr 5) (empty_cache :: int cache_state)))))
     = [(Top_customers, [10])] \<and>
   fst (get_metric Top_customers [10] 3700 (Inr 6)
      (snd (get_metric Top_customers [10] 100 (Inr 5) (empty_cache :: int cache_state)))) = Inr 6 \<and>
   executions (snd (get_metric Top_customers [10] 3700 (Inr 6)
      (snd (get_metric Top_customers [10] 100 (Inr 5) (empty_cache :: int cache_state)))))
     = [(Top_customers, [10]), (Top_customers, [10])]"
proof -
  let ?st = "empty_cache :: int cache_state"
  let ?st1 = "\<lparr>entries = (\<lambda>k. None)((Top_customers, [10::int]) := Some (5::int, 100::nat)),
                executions = [(Top_customers, [10::int])]\<rparr>"
  have miss: "entries ?st (Top_customers, [10]) = None" by (simp add: empty_cache_def)
  have first: "get_metric Top_customers [10] 100 (Inr 5) ?st = (Inr 5, ?st1)"
    by (simp add: get_metric_def getOrCompute_def empty_cache_def)
  from cache_ttl [OF miss first, of 3699 "Inr 6"] cache_ttl [OF miss first, of 3700 "Inr 6"]
  show ?thesis using miss first by simp
qed

section \<open>Results on the numeric normalizer\<close>

lemma dict_setitem_fresh:
  "k \<notin> fst ` set d \<Longrightarrow> dict_setitem k v d = d @ [(k, v)]"
  by (induction d) auto

lemma dict_setitem_keys:
  "map fst (dict_setitem k v d) = (if k \<in> set (map fst d) then map fst d else map fst d @ [k])"
  by (induction d) auto

lemma foldl_dict_distinct_keys:
  "distinct (map fst d) \<Longrightarrow>
   distinct (map fst (foldl (\<lambda>d c. dict_setitem (fst c) (f (snd c)) d) d cs))"
  by (induction cs arbitrary: d) (auto simp: dict_setitem_keys)

lemma to_dict_list_distinct: "distinct (map fst (to_dict_list df))"
  unfolding to_dict_list_def by (rule foldl_dict_distinct_keys) simp

lemma foldl_dict_fresh:
  "distinct (map fst cs) \<Longrightarrow> fst ` set d \<inter> fst ` set cs = {} \<Longrightarrow>
   foldl (\<lambda>d c. dict_setitem (fst c) (f (snd c)) d) d cs = d @ map (\<lambda>c. (fst c, f (snd c))) cs"
proof (induction cs arbitrary: d)
  case Nil
  then show ?case by simp
next
  case (Cons c cs)
  have fresh: "fst c \<notin> fst ` set d" using Cons.prems(2) by auto
  have step: "dict_setitem (fst c) (f (snd c)) d = d @ [(fst c, f (snd c))]"
    using fresh by (rule dict_setitem_fresh)
  have "fst ` set (d @ [(fst c, f (snd c))]) \<inter> fst ` set cs = {}"
    using Cons.prems by auto
  with Cons.IH [of "d @ [(fst c, f (snd c))]"] Cons.prems(1) step show ?case by simp
qed

lemma to_dict_list_distinct_eq:
  "distinct (columns df) \<Longrightarrow> to_dict_list df = map (\<lambda>c. (fst c, tolist (snd c))) (items df)"
  unfolding to_dict_list_def columns_def using foldl_dict_fresh [of "items df" "[]" tolist] by simp

lemma filter_label_absent:
  "k \<notin> fst ` set cs \<Longrightarrow> filter (\<lambda>x. fst x = k) cs = []"
  by (induction cs) auto

lemma filter_label_distinct:
  "distinct (map fst cs) \<Longrightarrow> c \<in> set cs \<Longrightarrow> filter (\<lambda>x. fst x = fst c) cs = [c]"
proof (induction cs)
  case Nil
  then show ?case by simp
next
  case (Cons a cs)
  show ?case
  proof (cases "a = c")
    case True
    have "fst c \<notin> fst ` set cs" using Cons.prems(1) True by simp
    then have "filter (\<lambda>x. fst x = fst c) cs = []" by (rule filter_label_absent)
    with True show ?thesis by simp
  next
    case False
    with Cons.prems have mem: "c \<in> set cs" by simp
    then have "fst c \<in> fst ` set cs" by (rule imageI)
    moreover have "fst a \<notin> fst ` set cs" using Cons.prems(1) by simp
    ultimately have "fst a \<noteq> fst c" by metis
    then show ?thesis using Cons mem by simp
  qed
qed

lemma getitem_distinct:
  "distinct (columns df) \<Longrightarrow> (k, s) \<in> set (items df) \<Longrightarrow> getitem df k = Inr s"
  using filter_label_distinct [of "items df" "(k, s)"] by (simp add: getitem_def columns_def)

lemma columns_setitem: "columns (setitem df col s) = columns df"
  by (auto simp: setitem_def columns_def)

lemma list_all_None_conv:
  "list_all (\<lambda>x. x = None) (map f vs) \<longleftrightarrow> \<not> list_ex (\<lambda>v. f v \<noteq> None) vs"
  by (induction vs) auto

lemma convert_numeric_loop_distinct:
  "distinct (columns df) \<Longrightarrow> distinct cols \<Longrightarrow> set cols \<subseteq> set (columns df) \<Longrightarrow>
   convert_numeric_loop parse cols df =
     Inr (df\<lparr>items := map (\<lambda>c. if fst c \<in> set cols
        then (fst c, normalize_column parse (snd c)) else c) (items df)\<rparr>)"
proof (induction cols arbitrary: df)
  case Nil
  then show ?case by simp
next
  case (Cons col cols)
  from Cons.prems(3) obtain s where mem: "(col, s) \<in> set (items df)"
    by (auto simp: columns_def)
  have get: "getitem df col = Inr s"
    using Cons.prems(1) mem by (rule getitem_distinct)
  have notin: "col \<notin> set cols" and dc: "distinct cols" using Cons.prems(2) by simp_all
  have sub: "set cols \<subseteq> set (columns df)" using Cons.prems(3) by simp
  let ?g = "\<lambda>cs. map (\<lambda>c. if fst c \<in> set cs then (fst c, normalize_column parse (snd c)) else c)"
  have same: "c = (col, s)" if "c \<in> set (items df)" "fst c = col" for c
  proof -
    have "c \<in> set (filter (\<lambda>x. fst x = col) (items df))" using that by simp
    moreover have "filter (\<lambda>x. fst x = col) (items df) = [(col, s)]"
      using filter_label_distinct [of "items df" "(col, s)"] Cons.prems(1) mem
      by (simp add: columns_def)
    ultimately show ?thesis by simp
  qed
  show ?case
  proof (cases "normalize_column parse s = s")
    case True
    have "convert_numeric_loop parse (col # cols) df = convert_numeric_loop parse cols df"
      using get True by (cases s) (simp_all add: list_all_None_conv split: if_splits)
    also have "\<dots> = Inr (df\<lparr>items := ?g cols (items df)\<rparr>)"
      using Cons.IH [OF Cons.prems(1) dc sub] .
    also have "?g cols (items df) = ?g (col # cols) (items df)"
    proof (rule map_cong [OF refl])
      fix c assume "c \<in> set (items df)"
      then show "(if fst c \<in> set cols then (fst c, normalize_column parse (snd c)) else c) =
          (if fst c \<in> set (col # cols) then (fst c, normalize_column parse (snd c)) else c)"
        using same [of c] True notin by (cases "fst c = col") auto
    qed
    finally show ?thesis .
  next
    case False
    then obtain vs where s: "s = ObjectS vs" and ex: "list_ex (\<lambda>v. numeric parse v \<noteq> None) vs"
      by (cases s) (auto split: if_splits)
    let ?conv = "NumericS (map (numeric parse) vs)"
    let ?df' = "setitem df col ?conv"
    have d': "distinct (columns ?df')" using Cons.prems(1) by (simp add: columns_setitem)
    have sub': "set cols \<subseteq> set (columns ?df')" using sub by (simp add: columns_setitem)
    have "convert_numeric_loop parse (col # cols) df = convert_numeric_loop parse cols ?df'"
      using get s ex by (simp add: list_all_None_conv)
    also have "\<dots> = Inr (?df'\<lparr>items := ?g cols (items ?df')\<rparr>)"
      using Cons.IH [OF d' dc sub'] .
    also have "?df'\<lparr>items := ?g cols (items ?df')\<rparr> = df\<lparr>items := ?g cols (items ?df')\<rparr>"
      by (simp add: setitem_def)
    also have "?g cols (items ?df') = ?g (col # cols) (items df)"
    proof -
      let ?h = "\<lambda>c. if fst c = col then (col, ?conv) else c"
      have "items ?df' = map ?h (items df)" by (simp add: setitem_def)
      moreover have "?g cols (map ?h (items df)) = ?g (col # cols) (items df)"
        unfolding map_map
      proof (rule map_cong [OF refl])
        fix c assume "c \<in> set (items df)"
        then show "((\<lambda>c. if fst c \<in> set cols then (fst c, normalize_column parse (snd c)) else c)
              \<circ> ?h) c =
            (if fst c \<in> set (col # cols) then (fst c, normalize_column parse (snd c)) else c)"
          using same [of c] s ex notin by (cases "fst c = col") auto
      qed
      ultimately show ?thesis by simp
    qed
    finally show ?thesis .
  qed
qed


lemma is_native_box: "is_native (box x)"
  by (cases x) simp_all

lemma unbox_box: "unbox (box x) = x"
  by (cases x) simp_all

lemma box_not_PyNone: "box x \<noteq> PyNone"
  by (cases x) simp_all

lemma infer_series_box:
  fixes xs :: "'n option list"
  assumes "xs \<noteq> []"
  shows "infer_series (map box xs :: ('o, 'n) pyval list) = NumericS xs"
proof -
  let ?vs = "map box xs :: ('o, 'n) pyval list"
  have "list_all is_native ?vs"
    by (simp add: list_all_iff is_native_box)
  moreover from assms obtain x where "x \<in> set xs" by (cases xs) auto
  then have "list_ex (\<lambda>v. v \<noteq> PyNone) ?vs"
    by (auto simp: list_ex_iff box_not_PyNone)
  moreover have "map unbox ?vs = xs"
    by (simp add: unbox_box comp_def)
  moreover have "?vs \<noteq> []" using assms by simp
  ultimately show ?thesis unfolding infer_series_def by simp
qed

lemma sanitize_list_box:
  fixes xs :: "'n option list"
  shows "sanitize_list (map box xs :: ('o, 'n) pyval list) = NumericS xs"
  by (cases "xs = []") (simp_all add: sanitize_list_def infer_series_box)

lemma inferred_NumericS: "inferred (NumericS xs)"
  by (simp add: inferred_def sanitize_list_box)

lemma inferred_ObjectS: "inferred (ObjectS vs) \<longleftrightarrow> sanitize_list vs = ObjectS vs"
  by (simp add: inferred_def)

lemma sanitize_list_cases:
  "sanitize_list vs = ObjectS vs \<or> sanitize_list vs = NumericS (map unbox vs)"
  by (simp add: sanitize_list_def infer_series_def)

lemma inferred_sanitize_list: "inferred (sanitize_list vs)"
  using sanitize_list_cases [of vs] by (auto simp: inferred_NumericS inferred_ObjectS)

lemma inferred_infer_series: "vs \<noteq> [] \<Longrightarrow> inferred (infer_series vs)"
  using inferred_sanitize_list [of vs] by (simp add: sanitize_list_def)

lemma normalize_column_inferred: "inferred s \<Longrightarrow> inferred (normalize_column parse s)"
  by (cases s) (simp_all add: inferred_NumericS)

lemma normalize_column_idem:
  "normalize_column parse (normalize_column parse s) = normalize_column parse s"
  by (cases s) simp_all

lemma normalize_sanitize_fixed:
  "normalize_column parse (sanitize_list (tolist (normalize_column parse (sanitize_list vs)))) =
     normalize_column parse (sanitize_list vs)"
proof -
  have "inferred (normalize_column parse (sanitize_list vs))"
    by (rule normalize_column_inferred) (rule inferred_sanitize_list)
  then show ?thesis by (simp add: inferred_def normalize_column_idem)
qed

lemma length_tolist_sanitize_list: "length (tolist (sanitize_list vs)) = length vs"
  by (simp add: sanitize_list_def infer_series_def)

lemma length_tolist_normalize_column:
  "length (tolist (normalize_column parse s)) = length (tolist s)"
  by (cases s) simp_all






lemma convert_numeric_loop_all:
  assumes "distinct (columns df)"
  shows "convert_numeric_loop parse (columns df) df =
     Inr (df\<lparr>items := map (\<lambda>c. (fst c, normalize_column parse (snd c))) (items df)\<rparr>)"
proof -
  have "convert_numeric_loop parse (columns df) df =
      Inr (df\<lparr>items := map (\<lambda>c. if fst c \<in> set (columns df)
        then (fst c, normalize_column parse (snd c)) else c) (items df)\<rparr>)"
    using assms by (intro convert_numeric_loop_distinct) simp_all
  also have "map (\<lambda>c. if fst c \<in> set (columns df)
        then (fst c, normalize_column parse (snd c)) else c) (items df) =
      map (\<lambda>c. (fst c, normalize_column parse (snd c))) (items df)"
    by (rule map_cong [OF refl]) (simp add: columns_def)
  finally show ?thesis .
qed

lemma convert_numeric_columns_eq:
  "convert_numeric_columns parse df =
     Inr \<lparr>index = default_index (case to_dict_list df of [] \<Rightarrow> 0 | kv # _ \<Rightarrow> length (snd kv)),
          items = map (\<lambda>kv. (fst kv, normalize_column parse (sanitize_list (snd kv))))
                    (to_dict_list df)\<rparr>"
proof -
  let ?df' = "DataFrame_dict (to_dict_list df)"
  have "columns ?df' = map fst (to_dict_list df)"
    by (simp add: DataFrame_dict_def columns_def comp_def)
  then have "distinct (columns ?df')" by (simp add: to_dict_list_distinct)
  then have "convert_numeric_loop parse (columns ?df') ?df' =
      Inr (?df'\<lparr>items := map (\<lambda>c. (fst c, normalize_column parse (snd c))) (items ?df')\<rparr>)"
    by (rule convert_numeric_loop_all)
  then show ?thesis
    by (simp add: convert_numeric_columns_def Let_def DataFrame_dict_def comp_def)
qed

lemma convert_numeric_columns_distinct:
  "distinct (columns df) \<Longrightarrow>
   convert_numeric_columns parse df =
     Inr \<lparr>index = default_index (case items df of [] \<Rightarrow> 0 | c # _ \<Rightarrow> length (tolist (snd c))),
          items = map (\<lambda>c. (fst c, normalize_column parse (sanitize_list (tolist (snd c)))))
                    (items df)\<rparr>"
  by (cases "items df") (simp_all add: convert_numeric_columns_eq to_dict_list_distinct_eq comp_def)


lemma convert_numeric_columns_labels:
  "convert_numeric_columns parse df = Inr r \<Longrightarrow> distinct (columns r)"
  using to_dict_list_distinct [of df]
  by (auto simp: convert_numeric_columns_eq columns_def comp_def)


lemma default_index_0: "default_index 0 = []"
  by (simp add: default_index_def)

lemma default_index_Suc: "default_index (Suc n) = default_index n @ [RowInt (int n)]"
  by (simp add: default_index_def)

lemma frame_eqI:
  fixes df df' :: "('o, 'n) frame"
  shows "index df = index df' \<Longrightarrow> items df = items df' \<Longrightarrow> df = df'"
  by simp

lemma convert_numeric_columns_inferred:
  assumes "convert_numeric_columns parse df = Inr r"
  shows "list_all (\<lambda>c. inferred (snd c)) (items r)"
proof -
  have "inferred (normalize_column parse (sanitize_list vs))" for vs
    by (rule normalize_column_inferred) (rule inferred_sanitize_list)
  then show ?thesis
    using assms by (auto simp: convert_numeric_columns_eq list_all_iff)
qed

lemma convert_numeric_columns_default_indexed:
  assumes "convert_numeric_columns parse df = Inr r"
  shows "default_indexed r"
proof -
  have "length (tolist (normalize_column parse (sanitize_list vs))) = length vs" for vs
    by (simp add: length_tolist_normalize_column length_tolist_sanitize_list)
  then show ?thesis
    using assms
    by (cases "to_dict_list df") (auto simp: convert_numeric_columns_eq default_indexed_def)
qed

lemma DataFrame_rows_inferred:
  assumes "DataFrame_rows data names = Inr df" and "data \<noteq> []"
  shows "list_all (\<lambda>c. inferred (snd c)) (items df)"
proof -
  have "inferred (infer_series (map (\<lambda>r. r ! j) data))" for j
    using assms(2) by (intro inferred_infer_series) simp
  then show ?thesis
    using assms(1) by (auto simp: DataFrame_rows_def list_all_iff split: if_splits)
qed

lemma length_tolist_infer_series: "length (tolist (infer_series vs)) = length vs"
  by (simp add: infer_series_def)

lemma DataFrame_rows_default_indexed:
  assumes "DataFrame_rows data names = Inr df" and "names \<noteq> []"
  shows "default_indexed df"
proof -
  from assms(2) have "[0..<length names] = 0 # [1..<length names]"
    by (simp add: upt_rec)
  then show ?thesis
    using assms(1)
    by (auto simp: DataFrame_rows_def default_indexed_def length_tolist_infer_series
        split: if_splits)
qed

lemma parse_decimal_examples:
  "parse_decimal ''10'' = Some 10" "parse_decimal ''20'' = Some 20"
  "parse_decimal ''30'' = Some 30" "parse_decimal ''bad'' = None"
  "parse_decimal ''a'' = None" "parse_decimal ''b'' = None" "parse_decimal ''c'' = None"
  "parse_decimal ''F'' = None" "parse_decimal ''O'' = None" "parse_decimal [] = None"
  by (simp_all add: parse_decimal_def digit_of_def)




text \<open>
  Claim C6. The normalizer of the data layer is idempotent: on every frame it returns
  a frame, and applied to that frame it returns it unchanged.
\<close>

theorem convert_numeric_columns_idempotent:
  "\<exists>r. convert_numeric_columns parse df = Inr r \<and> convert_numeric_columns parse r = Inr r"
proof -
  let ?h = "\<lambda>kv. (fst kv, normalize_column parse (sanitize_list (snd kv)))"
  let ?d = "to_dict_list df"
  let ?r = "\<lparr>index = default_index (case ?d of [] \<Rightarrow> 0 | kv # _ \<Rightarrow> length (snd kv)),
             items = map ?h ?d\<rparr>"
  have r: "convert_numeric_columns parse df = Inr ?r" by (rule convert_numeric_columns_eq)
  then have "distinct (columns ?r)" by (rule convert_numeric_columns_labels)
  then have "convert_numeric_columns parse ?r =
      Inr \<lparr>index = default_index (case items ?r of [] \<Rightarrow> 0 | c # _ \<Rightarrow> length (tolist (snd c))),
           items = map (\<lambda>c. (fst c, normalize_column parse (sanitize_list (tolist (snd c)))))
                     (items ?r)\<rparr>"
    by (rule convert_numeric_columns_distinct)
  also have "map (\<lambda>c. (fst c, normalize_column parse (sanitize_list (tolist (snd c))))) (items ?r)
      = items ?r"
    by (simp add: comp_def normalize_sanitize_fixed)
  also have "(case items ?r of [] \<Rightarrow> 0 | c # _ \<Rightarrow> length (tolist (snd c))) =
      (case ?d of [] \<Rightarrow> 0 | kv # _ \<Rightarrow> length (snd kv))"
    by (cases ?d)
       (simp_all add: length_tolist_normalize_column length_tolist_sanitize_list)
  finally show ?thesis using r by simp
qed

theorem convert_numeric_columns_idempotent_witness:
  "convert_numeric_columns parse_decimal
      \<lparr>index = [RowInt 4, RowInt 9],
       items = [(''qty'', ObjectS [PyObj ''10'', PyObj ''bad'']),
                (''name'', ObjectS [PyObj ''a'', PyNone]),
                (''n'', ObjectS [PyNum 1, PyNone])]\<rparr>
     = Inr \<lparr>index = [RowInt 0, RowInt 1],
            items = [(''qty'', NumericS [Some 10, None]),
                     (''name'', ObjectS [PyObj ''a'', PyNone]),
                     (''n'', NumericS [Some 1, None])]\<rparr> \<and>
   convert_numeric_columns parse_decimal
      \<lparr>index = [RowInt 0, RowInt 1],
       items = [(''qty'', NumericS [Some 10, None]),
                (''name'', ObjectS [PyObj ''a'', PyNone]),
                (''n'', NumericS [Some 1, None])]\<rparr>
     = Inr \<lparr>index = [RowInt 0, RowInt 1],
            items = [(''qty'', NumericS [Some 10, None]),
                     (''name'', ObjectS [PyObj ''a'', PyNone]),
                     (''n'', NumericS [Some 1, None])]\<rparr>"
proof -
  let ?df = "\<lparr>index = [RowInt 4, RowInt 9],
       items = [(''qty'', ObjectS [PyObj ''10'', PyObj ''bad'']),
                (''name'', ObjectS [PyObj ''a'', PyNone]),
                (''n'', ObjectS [PyNum 1, PyNone])]\<rparr> :: (string, int) frame"
  have first: "convert_numeric_columns parse_decimal ?df
     = Inr \<lparr>index = [RowInt 0, RowInt 1],
            items = [(''qty'', NumericS [Some 10, None]),
                     (''name'', ObjectS [PyObj ''a'', PyNone]),
                     (''n'', NumericS [Some 1, None])]\<rparr>"
    by (simp add: convert_numeric_columns_distinct columns_def parse_decimal_examples
        sanitize_list_def infer_series_def default_index_Suc default_index_0)
  from convert_numeric_columns_idempotent [of parse_decimal ?df] first
  show ?thesis by simp
qed

text \<open>
  Claim C9. The claim asks that every table keeps its column labels, their order and
  the values of the columns that are not converted. It fails on a repeated label: the
  rows of \<^verbatim>\<open>SELECT COUNT(*) AS cnt, COUNT(DISTINCT o_custkey) AS cnt\<close>, say \<open>(3, 5)\<close>,
  make a frame of two columns labelled \<open>cnt\<close>; its dict of lists has the one key
  \<open>cnt\<close>, holding the values of the last such column, and the rebuilt frame has one
  column. The first column and its value are lost.
\<close>

theorem convert_numeric_columns_repeated_label:
  "DataFrame_rows [[PyNum 3, PyNum 5]] [''cnt'', ''cnt'']
     = Inr (\<lparr>index = [RowInt 0],
             items = [(''cnt'', NumericS [Some 3]), (''cnt'', NumericS [Some 5])]\<rparr>
            :: (string, int) frame) \<and>
   convert_numeric_columns parse_decimal
      \<lparr>index = [RowInt 0],
       items = [(''cnt'', NumericS [Some 3]), (''cnt'', NumericS [Some 5])]\<rparr>
     = Inr \<lparr>index = [RowInt 0], items = [(''cnt'', NumericS [Some 5])]\<rparr>"
proof -
  have "[0..<2] = [0, Suc 0]" by (simp add: upt_rec)
  then show ?thesis
    by (simp add: DataFrame_rows_def convert_numeric_columns_eq to_dict_list_def
        sanitize_list_def infer_series_def default_index_Suc default_index_0)
qed




section \<open>Results on the query executor\<close>

lemma warehouse_rows:
  "DataFrame_rows [[PyObj ''F'', PyObj ''10''], [PyObj ''O'', PyObj ''20'']] [''status'', ''total_value'']
     = Inr (\<lparr>index = [RowInt 0, RowInt 1],
             items = [(''status'', ObjectS [PyObj ''F'', PyObj ''O'']),
                      (''total_value'', ObjectS [PyObj ''10'', PyObj ''20''])]\<rparr>
            :: (string, int) frame)"
proof -
  have "[0..<2] = [0, Suc 0]" by (simp add: upt_rec)
  then show ?thesis
    by (simp add: DataFrame_rows_def infer_series_def default_index_Suc default_index_0)
qed

lemma warehouse_detect:
  "detect_connection_type (environ warehouse_world) init =
     (True, init\<lparr>self_use_sql_connector := Some True\<rparr>)"
  by (simp add: detect_connection_type_def init_def warehouse_world_def getenv_def)

lemma warehouse_get:
  "get_sql_connection warehouse_world =
     (Inr 1, [(''adb.example.com'', ''/sql/1.0/warehouses/w1'', ''dapi-secret'')])"
  by (simp add: get_sql_connection_def host_of_def http_path_of_def getenv_def getenv_default_def
      warehouse_world_def)

lemma warehouse_connection:
  "connection warehouse_world (init\<lparr>self_use_sql_connector := Some True\<rparr>) =
     (Inr (Some 1), init\<lparr>self_use_sql_connector := Some True, self_connection := Some 1\<rparr>)"
  by (simp add: connection_def warehouse_get detect_connection_type_def init_def)

lemma cluster_detect:
  "detect_connection_type (environ cluster_world) init =
     (False, init\<lparr>self_use_sql_connector := Some False\<rparr>)"
  by (simp add: detect_connection_type_def init_def cluster_world_def getenv_def)

lemma cluster_spark:
  "spark cluster_world (init\<lparr>self_use_sql_connector := Some False\<rparr>) =
     (Inr (Some 7), init\<lparr>self_use_sql_connector := Some False, self_spark := Some 7\<rparr>)"
  by (simp add: spark_def get_spark_session_def detect_connection_type_def init_def)
     (simp add: cluster_world_def)

lemma example_converted:
  "convert_numeric_columns parse_decimal
     \<lparr>index = [RowInt 0, RowInt 1],
      items = [(''status'', ObjectS [PyObj ''F'', PyObj ''O'']),
               (''total_value'', ObjectS [PyObj ''10'', PyObj ''20''])]\<rparr>
     = Inr \<lparr>index = [RowInt 0, RowInt 1],
            items = [(''status'', ObjectS [PyObj ''F'', PyObj ''O'']),
                     (''total_value'', NumericS [Some 10, Some 20])]\<rparr>"
  by (simp add: convert_numeric_columns_distinct columns_def parse_decimal_examples
      sanitize_list_def infer_series_def default_index_Suc default_index_0)

text \<open>
  The claim C1 as stated fails in managed-session mode: the executor returns the
  session's frame as it is, with a column of generic values that the normalizer would
  have made numeric.
\<close>

theorem execute_query_managed_session_unnormalized:
  "fst (execute_query parse_decimal cluster_world init ''SELECT 1'') =
     Inr \<lparr>index = [RowInt 0, RowInt 1],
          items = [(''status'', ObjectS [PyObj ''F'', PyObj ''O'']),
                   (''total_value'', ObjectS [PyObj ''10'', PyObj ''20''])]\<rparr> \<and>
   fst (execute_query parse_decimal cluster_world init ''SELECT 1'') \<noteq>
     convert_numeric_columns parse_decimal
       \<lparr>index = [RowInt 0, RowInt 1],
        items = [(''status'', ObjectS [PyObj ''F'', PyObj ''O'']),
                 (''total_value'', ObjectS [PyObj ''10'', PyObj ''20''])]\<rparr>"
proof -
  have "fst (execute_query parse_decimal cluster_world init ''SELECT 1'') =
     Inr \<lparr>index = [RowInt 0, RowInt 1],
          items = [(''status'', ObjectS [PyObj ''F'', PyObj ''O'']),
                   (''total_value'', ObjectS [PyObj ''10'', PyObj ''20''])]\<rparr>"
    by (simp add: execute_query_def cluster_detect cluster_spark) (simp add: cluster_world_def)
  then show ?thesis by (simp add: example_converted)
qed

text \<open>
  Claim C1, as amended. In warehouse mode \<^verbatim>\<open>_execute_query\<close> returns the normalizer's
  result on the frame built from the cursor's column names and rows. In managed-session
  mode it returns the frame of \<^verbatim>\<open>spark.sql(query).toPandas()\<close> as it is: the
  normalizer is not applied on that path.
\<close>

theorem execute_query_by_mode:
  "(fst (detect_connection_type (environ w) self) \<and>
    fst (connection w (snd (detect_connection_type (environ w) self))) = Inr (Some c) \<and>
    cursor_execute w c query = Inr (names, rows) \<and>
    DataFrame_rows rows names = Inr raw
    \<longrightarrow> fst (execute_query parse w self query) = convert_numeric_columns parse raw) \<and>
   (\<not> fst (detect_connection_type (environ w) self) \<and>
    fst (spark w (snd (detect_connection_type (environ w) self))) = Inr (Some sp) \<and>
    sql_toPandas w sp query = Inr raw'
    \<longrightarrow> fst (execute_query parse w self query) = Inr raw')"
  by (auto simp: execute_query_def split: prod.splits sum.splits option.splits)

theorem execute_query_by_mode_witness:
  "fst (detect_connection_type (environ warehouse_world) init) \<and>
   fst (connection warehouse_world (snd (detect_connection_type (environ warehouse_world) init)))
     = Inr (Some 1) \<and>
   fst (execute_query parse_decimal warehouse_world init ''SELECT 1'') =
     Inr \<lparr>index = [RowInt 0, RowInt 1],
          items = [(''status'', ObjectS [PyObj ''F'', PyObj ''O'']),
                   (''total_value'', NumericS [Some 10, Some 20])]\<rparr> \<and>
   \<not> fst (detect_connection_type (environ cluster_world) init) \<and>
   fst (spark cluster_world (snd (detect_connection_type (environ cluster_world) init)))
     = Inr (Some 7) \<and>
   fst (execute_query parse_decimal cluster_world init ''SELECT 1'') =
     Inr \<lparr>index = [RowInt 0, RowInt 1],
          items = [(''status'', ObjectS [PyObj ''F'', PyObj ''O'']),
                   (''total_value'', ObjectS [PyObj ''10'', PyObj ''20''])]\<rparr>"
proof -
  have ce: "cursor_execute warehouse_world k ''SELECT 1'' =
      Inr ([''status'', ''total_value''],
           [[PyObj ''F'', PyObj ''10''], [PyObj ''O'', PyObj ''20'']])" for k
    by (simp add: warehouse_world_def)
  have tp: "sql_toPandas cluster_world 7 ''SELECT 1'' =
      Inr \<lparr>index = [RowInt 0, RowInt 1],
           items = [(''status'', ObjectS [PyObj ''F'', PyObj ''O'']),
                    (''total_value'', ObjectS [PyObj ''10'', PyObj ''20''])]\<rparr>"
    by (simp add: cluster_world_def)
  from execute_query_by_mode [where w = warehouse_world and self = init and c = 1
      and query = "''SELECT 1''" and names = "[''status'', ''total_value'']"
      and rows = "[[PyObj ''F'', PyObj ''10''], [PyObj ''O'', PyObj ''20'']]"
      and raw = "\<lparr>index = [RowInt 0, RowInt 1],
        items = [(''status'', ObjectS [PyObj ''F'', PyObj ''O'']),
                 (''total_value'', ObjectS [PyObj ''10'', PyObj ''20''])]\<rparr>"
      and parse = parse_decimal]
    execute_query_by_mode [where w = cluster_world and self = init and sp = 7
      and query = "''SELECT 1''"
      and raw' = "\<lparr>index = [RowInt 0, RowInt 1],
        items = [(''status'', ObjectS [PyObj ''F'', PyObj ''O'']),
                 (''total_value'', ObjectS [PyObj ''10'', PyObj ''20''])]\<rparr>"
      and parse = parse_decimal]
  show ?thesis
    by (simp add: warehouse_detect warehouse_connection cluster_detect cluster_spark ce tp
        warehouse_rows example_converted)
qed

end
